theory Spec2Isabelle
  imports Main "HOL-Library.Word"
begin

unbundle bit_operations_syntax

section \<open>Register map and bit definitions (the header \<open>g233_spi.h\<close>)\<close>

type_synonym hwaddr = "64 word"
type_synonym uint32 = "32 word"
type_synonym uint8 = "8 word"

text \<open>Register offsets. The header spells them with a leading underscore.\<close>

definition SPI_CR1 :: hwaddr where "SPI_CR1 = 0x00"
definition SPI_CR2 :: hwaddr where "SPI_CR2 = 0x04"
definition SPI_SR :: hwaddr where "SPI_SR = 0x08"
definition SPI_DR :: hwaddr where "SPI_DR = 0x0C"
definition SPI_CSCTRL :: hwaddr where "SPI_CSCTRL = 0x10"

definition G233_SPI_CR1_SPE :: uint32 where "G233_SPI_CR1_SPE = push_bit 6 1"
definition G233_SPI_CR1_MSTR :: uint32 where "G233_SPI_CR1_MSTR = push_bit 2 1"

definition G233_SPI_SR_RXNE :: uint32 where "G233_SPI_SR_RXNE = push_bit 0 1"
definition G233_SPI_SR_TXE :: uint32 where "G233_SPI_SR_TXE = push_bit 1 1"
definition G233_SPI_SR_UDR :: uint32 where "G233_SPI_SR_UDR = push_bit 2 1"
definition G233_SPI_SR_OVR :: uint32 where "G233_SPI_SR_OVR = push_bit 3 1"
definition G233_SPI_SR_BSY :: uint32 where "G233_SPI_SR_BSY = push_bit 7 1"

definition G233_SPI_CS0_ENABLE :: uint32 where "G233_SPI_CS0_ENABLE = push_bit 0 1"
definition G233_SPI_CS1_ENABLE :: uint32 where "G233_SPI_CS1_ENABLE = push_bit 1 1"
definition G233_SPI_CS0_ACTIVE :: uint32 where "G233_SPI_CS0_ACTIVE = push_bit 4 1"
definition G233_SPI_CS1_ACTIVE :: uint32 where "G233_SPI_CS1_ACTIVE = push_bit 5 1"

section \<open>Controller state\<close>

text \<open>
  The data fields of \<open>struct G233SPIState\<close>: five registers, the received byte and
  the six mirror flags. The parent object, the MMIO region and the handles of the bus
  and of the output lines carry no data of the controller; what they reach is kept in
  the surrounding \<open>machine\<close>.
\<close>

record G233SPIState =
  cr1 :: uint32
  cr2 :: uint32
  sr :: uint32
  dr :: uint32
  csctrl :: uint32
  rx_data :: uint8
  spe :: bool
  mstr :: bool
  cs0_en :: bool
  cs0_act :: bool
  cs1_en :: bool
  cs1_act :: bool

text \<open>
  What the controller does to its collaborators, in call order: a level set on output
  line \<open>n\<close> of \<open>cs_lines\<close>, one exchange on the SSI bus (value sent, value
  returned), and the two guest-error diagnostics.
\<close>

datatype event =
  Set_irq nat int
  | Ssi_transfer uint32 uint32
  | Bad_read hwaddr
  | Bad_write hwaddr uint32

text \<open>
  The controller with its surroundings: \<open>dev\<close> is the structure, \<open>ssi\<close> the state of
  the peer behind \<open>s->ssi\<close>, \<open>lines n\<close> the level last driven on \<open>s->cs_lines[n]\<close>
  (0 and 1 the chip selects, 2 the interrupt), \<open>trace\<close> every collaborator call so far.
\<close>

record 'bus machine =
  dev :: G233SPIState
  ssi :: 'bus
  lines :: "nat \<Rightarrow> int"
  trace :: "event list"

section \<open>Collaborators\<close>

text \<open>
  Modelled from the spec: \<open>qemu_set_irq\<close> is not among the sources. Section 6 describes
  the output lines as levels "delivered to an external consumer via a level-set call
  whenever recomputed"; the call stores the level on the line and is recorded.
\<close>

definition qemu_set_irq :: "nat \<Rightarrow> int \<Rightarrow> 'bus machine \<Rightarrow> 'bus machine" where
  "qemu_set_irq n level m =
     m\<lparr>lines := (lines m)(n := level), trace := trace m @ [Set_irq n level]\<rparr>"

text \<open>
  Modelled from the spec: \<open>ssi_transfer\<close> is not among the sources. Section 6 describes
  it as one synchronous operation that always returns. The peer is a parameter
  \<open>xfer\<close>: from its state and the value sent it gives the value returned and its next
  state.
\<close>

type_synonym 'bus peer = "'bus \<Rightarrow> uint32 \<Rightarrow> uint32 \<times> 'bus"

definition ssi_transfer :: "'bus peer \<Rightarrow> 'bus machine \<Rightarrow> uint32 \<Rightarrow> uint32 \<times> 'bus machine" where
  "ssi_transfer xfer m val =
     (let (rx, b) = xfer (ssi m) val
      in (rx, m\<lparr>ssi := b, trace := trace m @ [Ssi_transfer val rx]\<rparr>))"

text \<open>
  Modelled from the spec: \<open>qemu_log_mask\<close> is not among the sources. Section 7 has an
  invalid offset "logged as a guest-visible diagnostic", after which execution continues.
\<close>

definition qemu_log_mask :: "event \<Rightarrow> 'bus machine \<Rightarrow> 'bus machine" where
  "qemu_log_mask e m = m\<lparr>trace := trace m @ [e]\<rparr>"

section \<open>The controller (\<open>g233_spi.c\<close>)\<close>

definition g233_spi_update_cs :: "'bus machine \<Rightarrow> 'bus machine" where
  "g233_spi_update_cs m =
     (let s = dev m;
          m = qemu_set_irq 0 (if cs0_en s \<and> cs0_act s then 0 else 1) m;
          m = qemu_set_irq 1 (if cs1_en s \<and> cs1_act s then 0 else 1) m
      in m)"

text \<open>The value of the local \<open>irq\<close> of \<open>g233_spi_update_irq\<close> when the line is set.\<close>

definition irq_pending :: "G233SPIState \<Rightarrow> bool" where
  "irq_pending s =
     (let irq = False;
          irq = (if cr2 s AND push_bit 7 1 \<noteq> 0 \<and> sr s AND G233_SPI_SR_TXE \<noteq> 0
                 then True else irq);
          irq = (if cr2 s AND push_bit 6 1 \<noteq> 0 \<and> sr s AND G233_SPI_SR_RXNE \<noteq> 0
                 then True else irq);
          irq = (if cr2 s AND push_bit 5 1 \<noteq> 0
                    \<and> sr s AND (G233_SPI_SR_UDR OR G233_SPI_SR_OVR) \<noteq> 0
                 then True else irq)
      in irq)"

definition g233_spi_update_irq :: "'bus machine \<Rightarrow> 'bus machine" where
  "g233_spi_update_irq m = qemu_set_irq 2 (if irq_pending (dev m) then 1 else 0) m"

definition g233_spi_reset :: "'bus machine \<Rightarrow> 'bus machine" where
  "g233_spi_reset m =
     (let s = dev m;
          s = s\<lparr>cr1 := 0\<rparr>;
          s = s\<lparr>cr2 := 0\<rparr>;
          s = s\<lparr>sr := G233_SPI_SR_TXE\<rparr>;
          s = s\<lparr>rx_data := 0\<rparr>;
          s = s\<lparr>spe := False\<rparr>;
          s = s\<lparr>mstr := False\<rparr>;
          s = s\<lparr>cs0_en := False\<rparr>;
          s = s\<lparr>cs0_act := False\<rparr>;
          s = s\<lparr>cs1_en := False\<rparr>;
          s = s\<lparr>cs1_act := False\<rparr>;
          m = g233_spi_update_cs (m\<lparr>dev := s\<rparr>);
          m = g233_spi_update_irq m
      in m)"

definition g233_spi_do_transfer :: "'bus peer \<Rightarrow> 'bus machine \<Rightarrow> uint8 \<Rightarrow> 'bus machine" where
  "g233_spi_do_transfer xfer m tx =
     (let s = dev m;
          s = s\<lparr>sr := sr s AND NOT G233_SPI_SR_TXE\<rparr>;
          s = s\<lparr>sr := sr s OR G233_SPI_SR_BSY\<rparr>;
          (rx, m) = ssi_transfer xfer (m\<lparr>dev := s\<rparr>) (ucast tx);
          s = dev m;
          s = (if sr s AND G233_SPI_SR_RXNE \<noteq> 0
               then s\<lparr>sr := sr s OR G233_SPI_SR_OVR\<rparr> else s);
          s = s\<lparr>rx_data := ucast rx\<rparr>;
          s = s\<lparr>sr := sr s OR G233_SPI_SR_RXNE\<rparr>;
          s = s\<lparr>sr := sr s OR G233_SPI_SR_TXE\<rparr>;
          s = s\<lparr>sr := sr s AND NOT G233_SPI_SR_BSY\<rparr>
      in g233_spi_update_irq (m\<lparr>dev := s\<rparr>))"

text \<open>
  The read handler returns the value read and the machine after the access. Neither
  handler looks at the access size \<open>sz\<close> (the \<open>size\<close> parameter of the source).
\<close>

definition g233_spi_read :: "'bus machine \<Rightarrow> hwaddr \<Rightarrow> uint32 \<Rightarrow> 64 word \<times> 'bus machine" where
  "g233_spi_read m addr sz =
     (let s = dev m in
      if addr = SPI_CR1 then (ucast (cr1 s), m)
      else if addr = SPI_CR2 then (ucast (cr2 s), m)
      else if addr = SPI_SR then (ucast (sr s), m)
      else if addr = SPI_DR then
        (let val = (ucast (rx_data s) :: uint32);
             s = s\<lparr>sr := sr s AND NOT G233_SPI_SR_RXNE\<rparr>;
             s = s\<lparr>sr := sr s AND NOT G233_SPI_SR_OVR\<rparr>;
             m = g233_spi_update_irq (m\<lparr>dev := s\<rparr>)
         in (ucast val, m))
      else if addr = SPI_CSCTRL then (ucast (csctrl s), m)
      else (0, qemu_log_mask (Bad_read addr) m))"

definition g233_spi_write ::
    "'bus peer \<Rightarrow> 'bus machine \<Rightarrow> hwaddr \<Rightarrow> 64 word \<Rightarrow> uint32 \<Rightarrow> 'bus machine" where
  "g233_spi_write xfer m addr val64 sz =
     (let s = dev m;
          val = (ucast val64 :: uint32) in
      if addr = SPI_CR1 then
        (let s = s\<lparr>cr1 := val\<rparr>;
             s = s\<lparr>spe := (val AND G233_SPI_CR1_SPE \<noteq> 0)\<rparr>;
             s = s\<lparr>mstr := (val AND G233_SPI_CR1_MSTR \<noteq> 0)\<rparr>
         in m\<lparr>dev := s\<rparr>)
      else if addr = SPI_CR2 then
        (let s = s\<lparr>cr2 := val\<rparr>
         in g233_spi_update_irq (m\<lparr>dev := s\<rparr>))
      else if addr = SPI_SR then
        (let tmp = val AND (G233_SPI_SR_OVR OR G233_SPI_SR_UDR);
             s = s\<lparr>sr := sr s AND NOT tmp\<rparr>
         in g233_spi_update_irq (m\<lparr>dev := s\<rparr>))
      else if addr = SPI_DR then
        (let s = s\<lparr>dr := val AND 0xFF\<rparr>;
             cs0_active = (cs0_en s \<and> cs0_act s);
             cs1_active = (cs1_en s \<and> cs1_act s)
         in if spe s \<and> mstr s \<and> (cs0_active \<noteq> cs1_active)
            then g233_spi_do_transfer xfer (m\<lparr>dev := s\<rparr>) (ucast (dr s))
            else m\<lparr>dev := s\<rparr>)
      else if addr = SPI_CSCTRL then
        (let s = s\<lparr>csctrl := val\<rparr>;
             s = s\<lparr>cs0_en := (val AND G233_SPI_CS0_ENABLE \<noteq> 0)\<rparr>;
             s = s\<lparr>cs1_en := (val AND G233_SPI_CS1_ENABLE \<noteq> 0)\<rparr>;
             s = s\<lparr>cs0_act := (val AND G233_SPI_CS0_ACTIVE \<noteq> 0)\<rparr>;
             s = s\<lparr>cs1_act := (val AND G233_SPI_CS1_ACTIVE \<noteq> 0)\<rparr>
         in g233_spi_update_cs (m\<lparr>dev := s\<rparr>))
      else qemu_log_mask (Bad_write addr val) m)"

section \<open>Entry points as operations\<close>

text \<open>
  The controller is entered three ways: a register read, a register write (both through
  \<open>g233_spi_ops\<close>) and the reset hook installed by \<open>g233_spi_class_init\<close>.
\<close>

datatype access =
  Read hwaddr uint32
  | Write hwaddr "64 word" uint32
  | Reset

fun step :: "'bus peer \<Rightarrow> 'bus machine \<Rightarrow> access \<Rightarrow> 'bus machine" where
  "step xfer m (Read addr sz) = snd (g233_spi_read m addr sz)"
| "step xfer m (Write addr val64 sz) = g233_spi_write xfer m addr val64 sz"
| "step xfer m Reset = g233_spi_reset m"

definition run :: "'bus peer \<Rightarrow> 'bus machine \<Rightarrow> access list \<Rightarrow> 'bus machine" where
  "run xfer m ops = foldl (step xfer) m ops"

text \<open>
  The mirror relation of section 3 of the specification between the flags and the bits
  of CR1 and CSCTRL they are copied from.
\<close>

definition mirror :: "G233SPIState \<Rightarrow> bool" where
  "mirror s \<longleftrightarrow>
     spe s = bit (cr1 s) 6 \<and> mstr s = bit (cr1 s) 2 \<and>
     cs0_en s = bit (csctrl s) 0 \<and> cs1_en s = bit (csctrl s) 1 \<and>
     cs0_act s = bit (csctrl s) 4 \<and> cs1_act s = bit (csctrl s) 5"

section \<open>Concrete machines for evaluation\<close>

text \<open>
  The structure as allocated (all bytes zero, before the first reset), with a peer that
  answers every byte with its complement, as in scenario B of the specification
  (0x5A is answered by 0xA5).
\<close>

definition zeroed :: G233SPIState where
  "zeroed = \<lparr>cr1 = 0, cr2 = 0, sr = 0, dr = 0, csctrl = 0, rx_data = 0,
             spe = False, mstr = False, cs0_en = False, cs0_act = False,
             cs1_en = False, cs1_act = False\<rparr>"

definition power_on :: "unit machine" where
  "power_on = g233_spi_reset \<lparr>dev = zeroed, ssi = (), lines = (\<lambda>_. 0), trace = []\<rparr>"

definition complement_peer :: "unit peer" where
  "complement_peer b v = (v XOR 0xFF, b)"


definition selected :: "unit machine" where
  "selected = run complement_peer power_on [Write SPI_CSCTRL 0x11 4, Write SPI_CR1 0x44 4]"

text \<open>Scenario C: two transfers with no read of DR between them.\<close>

definition overrun :: "unit machine" where
  "overrun = run complement_peer selected [Write SPI_DR 0x5A 4, Write SPI_DR 0x5A 4]"

text \<open>The number of bus exchanges recorded in a trace.\<close>

fun is_exchange :: "event \<Rightarrow> bool" where
  "is_exchange (Ssi_transfer tx rx) = True"
| "is_exchange _ = False"

definition exchanges :: "event list \<Rightarrow> nat" where
  "exchanges t = length (filter is_exchange t)"

section \<open>Unfolding and bit lemmas\<close>

lemmas reg_offsets = SPI_CR1_def SPI_CR2_def SPI_SR_def SPI_DR_def SPI_CSCTRL_def

lemmas bit_masks =
  G233_SPI_CR1_SPE_def G233_SPI_CR1_MSTR_def
  G233_SPI_SR_RXNE_def G233_SPI_SR_TXE_def G233_SPI_SR_UDR_def
  G233_SPI_SR_OVR_def G233_SPI_SR_BSY_def
  G233_SPI_CS0_ENABLE_def G233_SPI_CS1_ENABLE_def
  G233_SPI_CS0_ACTIVE_def G233_SPI_CS1_ACTIVE_def

lemma and_mask_bit: "(w AND push_bit n 1 \<noteq> 0) = bit (w::'a::len word) n"
  by (simp add: bit_iff_and_push_bit_not_eq_0)

lemma and_two_masks_bit:
  "(w AND (push_bit i 1 OR push_bit j 1) \<noteq> 0) = (bit (w::'a::len word) i \<or> bit w j)"
  by (simp add: bit.conj_disj_distrib or_eq_0_iff and_mask_bit [symmetric])

lemma bit_set_mask:
  "bit (w OR push_bit i 1) n \<longleftrightarrow> bit (w :: 'a::len word) n \<or> (n = i \<and> i < LENGTH('a))"
  by (auto simp add: bit_simps)

lemma bit_clear_mask:
  "bit (w AND NOT (push_bit i 1)) n \<longleftrightarrow> bit (w :: 'a::len word) n \<and> n \<noteq> i"
  by (auto simp add: bit_simps dest: bit_imp_le_length)

lemma bit_clear_two_masks:
  "bit (w AND NOT (x AND (push_bit i 1 OR push_bit j 1))) n \<longleftrightarrow>
     bit (w :: 'a::len word) n \<and> \<not> ((n = i \<or> n = j) \<and> bit x n)"
  by (auto simp add: bit_simps dest: bit_imp_le_length)

lemma bit_uint32_bound: "bit (w :: uint32) n \<Longrightarrow> n < 32"
  using bit_imp_le_length [of w n] by simp

lemma low_byte_roundtrip:
  "ucast (ucast (w AND 0xFF :: uint32) :: uint8) = (w AND 0xFF :: uint32)"
proof -
  have eq: "(0xFF :: uint32) = mask 8" by (simp add: mask_eq_exp_minus_1)
  show ?thesis unfolding eq by (rule bit_word_eqI) (auto simp add: bit_simps)
qed

subsection \<open>The two output generators\<close>

lemma irq_pending_bits:
  "irq_pending s \<longleftrightarrow>
     bit (cr2 s) 7 \<and> bit (sr s) 1 \<or> bit (cr2 s) 6 \<and> bit (sr s) 0 \<or>
     bit (cr2 s) 5 \<and> (bit (sr s) 2 \<or> bit (sr s) 3)"
  unfolding irq_pending_def Let_def bit_masks and_mask_bit and_two_masks_bit
  by auto

lemma update_irq_simps:
  "dev (g233_spi_update_irq m) = dev m"
  "ssi (g233_spi_update_irq m) = ssi m"
  "lines (g233_spi_update_irq m) = (lines m)(2 := if irq_pending (dev m) then 1 else 0)"
  "trace (g233_spi_update_irq m) = trace m @ [Set_irq 2 (if irq_pending (dev m) then 1 else 0)]"
  by (simp_all add: g233_spi_update_irq_def qemu_set_irq_def)

lemma update_cs_simps:
  "dev (g233_spi_update_cs m) = dev m"
  "ssi (g233_spi_update_cs m) = ssi m"
  "lines (g233_spi_update_cs m) =
     (lines m)(0 := if cs0_en (dev m) \<and> cs0_act (dev m) then 0 else 1,
               1 := if cs1_en (dev m) \<and> cs1_act (dev m) then 0 else 1)"
  "trace (g233_spi_update_cs m) =
     trace m @ [Set_irq 0 (if cs0_en (dev m) \<and> cs0_act (dev m) then 0 else 1),
                Set_irq 1 (if cs1_en (dev m) \<and> cs1_act (dev m) then 0 else 1)]"
  by (simp_all add: g233_spi_update_cs_def qemu_set_irq_def Let_def)

subsection \<open>Reset\<close>

lemma reset_effect:
  "dev (g233_spi_reset m) =
     (dev m)\<lparr>cr1 := 0, cr2 := 0, sr := 2, rx_data := 0, spe := False, mstr := False,
              cs0_en := False, cs0_act := False, cs1_en := False, cs1_act := False\<rparr>"
  "ssi (g233_spi_reset m) = ssi m"
  "lines (g233_spi_reset m) = (lines m)(0 := 1, 1 := 1, 2 := 0)"
  "trace (g233_spi_reset m) = trace m @ [Set_irq 0 1, Set_irq 1 1, Set_irq 2 0]"
  by (simp_all add: g233_spi_reset_def Let_def update_irq_simps update_cs_simps
        irq_pending_bits G233_SPI_SR_TXE_def)

subsection \<open>The transfer\<close>

lemma do_transfer_sr:
  "sr (dev (g233_spi_do_transfer xfer m tx)) =
     (let w = sr (dev m) AND NOT G233_SPI_SR_TXE OR G233_SPI_SR_BSY
      in (((if w AND G233_SPI_SR_RXNE \<noteq> 0 then w OR G233_SPI_SR_OVR else w)
            OR G233_SPI_SR_RXNE) OR G233_SPI_SR_TXE) AND NOT G233_SPI_SR_BSY)"
  by (simp add: g233_spi_do_transfer_def ssi_transfer_def Let_def update_irq_simps
        case_prod_beta)

lemma do_transfer_sr_bits:
  "bit (sr (dev (g233_spi_do_transfer xfer m tx))) n \<longleftrightarrow>
     n = 0 \<or> n = 1 \<or> (n = 3 \<and> bit (sr (dev m)) 0) \<or> (n \<noteq> 7 \<and> bit (sr (dev m)) n)"
  unfolding do_transfer_sr Let_def bit_masks and_mask_bit if_distrib [of "\<lambda>w. bit w n"]
    bit_set_mask bit_clear_mask
  by auto

lemma do_transfer_effect:
  "dev (g233_spi_do_transfer xfer m tx) =
     (dev m)\<lparr>sr :=
         (let w = sr (dev m) AND NOT G233_SPI_SR_TXE OR G233_SPI_SR_BSY
          in (((if w AND G233_SPI_SR_RXNE \<noteq> 0 then w OR G233_SPI_SR_OVR else w)
                OR G233_SPI_SR_RXNE) OR G233_SPI_SR_TXE) AND NOT G233_SPI_SR_BSY),
       rx_data := ucast (fst (xfer (ssi m) (ucast tx)))\<rparr>"
  "ssi (g233_spi_do_transfer xfer m tx) = snd (xfer (ssi m) (ucast tx))"
  "trace (g233_spi_do_transfer xfer m tx) =
     trace m @ [Ssi_transfer (ucast tx) (fst (xfer (ssi m) (ucast tx))),
                Set_irq 2 (if irq_pending (dev (g233_spi_do_transfer xfer m tx)) then 1 else 0)]"
  "lines (g233_spi_do_transfer xfer m tx) =
     (lines m)(2 := if irq_pending (dev (g233_spi_do_transfer xfer m tx)) then 1 else 0)"
  by (simp_all add: g233_spi_do_transfer_def ssi_transfer_def Let_def update_irq_simps
        case_prod_beta)

subsection \<open>The write handler, register by register\<close>

lemma write_cr1:
  "g233_spi_write xfer m SPI_CR1 v sz =
     m\<lparr>dev := (dev m)\<lparr>cr1 := ucast v, spe := bit (ucast v :: uint32) 6,
                        mstr := bit (ucast v :: uint32) 2\<rparr>\<rparr>"
  unfolding g233_spi_write_def Let_def bit_masks and_mask_bit
  by (simp add: reg_offsets)

lemma write_cr2:
  "g233_spi_write xfer m SPI_CR2 v sz =
     g233_spi_update_irq (m\<lparr>dev := (dev m)\<lparr>cr2 := ucast v\<rparr>\<rparr>)"
  by (simp add: g233_spi_write_def reg_offsets Let_def)

lemma write_sr:
  "g233_spi_write xfer m SPI_SR v sz =
     g233_spi_update_irq
       (m\<lparr>dev := (dev m)\<lparr>sr := sr (dev m)
             AND NOT (ucast v AND (G233_SPI_SR_OVR OR G233_SPI_SR_UDR))\<rparr>\<rparr>)"
  by (simp add: g233_spi_write_def reg_offsets Let_def)

lemma write_dr:
  "g233_spi_write xfer m SPI_DR v sz =
     (if spe (dev m) \<and> mstr (dev m)
         \<and> ((cs0_en (dev m) \<and> cs0_act (dev m)) \<noteq> (cs1_en (dev m) \<and> cs1_act (dev m)))
      then g233_spi_do_transfer xfer (m\<lparr>dev := (dev m)\<lparr>dr := ucast v AND 0xFF\<rparr>\<rparr>)
             (ucast (ucast v AND 0xFF :: uint32))
      else m\<lparr>dev := (dev m)\<lparr>dr := ucast v AND 0xFF\<rparr>\<rparr>)"
  by (auto simp add: g233_spi_write_def reg_offsets Let_def)

lemma write_csctrl:
  "g233_spi_write xfer m SPI_CSCTRL v sz =
     g233_spi_update_cs
       (m\<lparr>dev := (dev m)\<lparr>csctrl := ucast v,
            cs0_en := bit (ucast v :: uint32) 0, cs1_en := bit (ucast v :: uint32) 1,
            cs0_act := bit (ucast v :: uint32) 4, cs1_act := bit (ucast v :: uint32) 5\<rparr>\<rparr>)"
  unfolding g233_spi_write_def Let_def bit_masks and_mask_bit
  by (simp add: reg_offsets)

lemma write_bad:
  "addr \<notin> {SPI_CR1, SPI_CR2, SPI_SR, SPI_DR, SPI_CSCTRL} \<Longrightarrow>
   g233_spi_write xfer m addr v sz = m\<lparr>trace := trace m @ [Bad_write addr (ucast v)]\<rparr>"
  by (simp add: g233_spi_write_def Let_def qemu_log_mask_def)

lemma write_cases:
  obtains "addr = SPI_CR1" | "addr = SPI_CR2" | "addr = SPI_SR" | "addr = SPI_DR"
  | "addr = SPI_CSCTRL" | "addr \<notin> {SPI_CR1, SPI_CR2, SPI_SR, SPI_DR, SPI_CSCTRL}"
  by auto

subsection \<open>The read handler\<close>

lemma read_dr:
  "g233_spi_read m SPI_DR sz =
     (ucast (rx_data (dev m)),
      g233_spi_update_irq
        (m\<lparr>dev := (dev m)\<lparr>sr := (sr (dev m) AND NOT G233_SPI_SR_RXNE)
                                      AND NOT G233_SPI_SR_OVR\<rparr>\<rparr>))"
proof -
  have "(ucast (ucast (rx_data (dev m)) :: uint32) :: 64 word) = ucast (rx_data (dev m))"
    by (rule bit_word_eqI) (auto simp add: bit_simps dest: bit_imp_le_length)
  then show ?thesis
    by (simp add: g233_spi_read_def reg_offsets Let_def)
qed

lemma read_other:
  "addr \<noteq> SPI_DR \<Longrightarrow> snd (g233_spi_read m addr sz) = m
     \<or> snd (g233_spi_read m addr sz) = m\<lparr>trace := trace m @ [Bad_read addr]\<rparr>"
  by (simp add: g233_spi_read_def Let_def qemu_log_mask_def)

subsection \<open>The concrete machines, evaluated\<close>

lemmas eval_defs =
  g233_spi_write_def g233_spi_read_def g233_spi_reset_def g233_spi_do_transfer_def
  g233_spi_update_cs_def g233_spi_update_irq_def irq_pending_def
  qemu_set_irq_def ssi_transfer_def qemu_log_mask_def reg_offsets bit_masks Let_def
  run_def complement_peer_def exchanges_def

lemma power_on_eq:
  "power_on =
     \<lparr>dev = \<lparr>cr1 = 0, cr2 = 0, sr = 2, dr = 0, csctrl = 0, rx_data = 0,
              spe = False, mstr = False, cs0_en = False, cs0_act = False,
              cs1_en = False, cs1_act = False\<rparr>,
      ssi = (), lines = (\<lambda>_. 0)(0 := 1, 1 := 1, 2 := 0),
      trace = [Set_irq 0 1, Set_irq 1 1, Set_irq 2 0]\<rparr>"
  by (simp add: power_on_def zeroed_def eval_defs)

lemma selected_eq:
  "selected =
     \<lparr>dev = \<lparr>cr1 = 0x44, cr2 = 0, sr = 2, dr = 0, csctrl = 0x11, rx_data = 0,
              spe = True, mstr = True, cs0_en = True, cs0_act = True,
              cs1_en = False, cs1_act = False\<rparr>,
      ssi = (), lines = (\<lambda>_. 0)(0 := 0, 1 := 1, 2 := 0),
      trace = [Set_irq 0 1, Set_irq 1 1, Set_irq 2 0, Set_irq 0 0, Set_irq 1 1]\<rparr>"
  by (simp add: selected_def power_on_eq eval_defs fun_eq_iff)

lemma overrun_eq:
  "overrun =
     \<lparr>dev = \<lparr>cr1 = 0x44, cr2 = 0, sr = 0x0B, dr = 0x5A, csctrl = 0x11, rx_data = 0xA5,
              spe = True, mstr = True, cs0_en = True, cs0_act = True,
              cs1_en = False, cs1_act = False\<rparr>,
      ssi = (), lines = (\<lambda>_. 0)(0 := 0, 1 := 1, 2 := 0),
      trace = [Set_irq 0 1, Set_irq 1 1, Set_irq 2 0, Set_irq 0 0, Set_irq 1 1,
               Ssi_transfer 0x5A 0xA5, Set_irq 2 0, Ssi_transfer 0x5A 0xA5, Set_irq 2 0]\<rparr>"
  by (simp add: overrun_def selected_eq eval_defs fun_eq_iff)

section \<open>Reset\<close>

text \<open>
  What \<open>g233_spi_reset\<close> does for every machine: CR1, CR2, \<open>rx_data\<close> and the six
  flags are cleared, SR becomes TXE alone, the chip selects are driven to 1 and the
  interrupt line to 0. The fields \<open>dr\<close> and \<open>csctrl\<close> are not assigned.
\<close>

lemma g233_spi_reset_assigned:
  "cr1 (dev (g233_spi_reset m)) = 0 \<and> cr2 (dev (g233_spi_reset m)) = 0
   \<and> sr (dev (g233_spi_reset m)) = G233_SPI_SR_TXE
   \<and> rx_data (dev (g233_spi_reset m)) = 0
   \<and> \<not> spe (dev (g233_spi_reset m)) \<and> \<not> mstr (dev (g233_spi_reset m))
   \<and> \<not> cs0_en (dev (g233_spi_reset m)) \<and> \<not> cs0_act (dev (g233_spi_reset m))
   \<and> \<not> cs1_en (dev (g233_spi_reset m)) \<and> \<not> cs1_act (dev (g233_spi_reset m))
   \<and> lines (g233_spi_reset m) 0 = 1 \<and> lines (g233_spi_reset m) 1 = 1
   \<and> lines (g233_spi_reset m) 2 = 0
   \<and> trace (g233_spi_reset m) = trace m @ [Set_irq 0 1, Set_irq 1 1, Set_irq 2 0]"
  by (simp add: reset_effect G233_SPI_SR_TXE_def)

lemma g233_spi_reset_not_assigned:
  "dr (dev (g233_spi_reset m)) = dr (dev m) \<and> csctrl (dev (g233_spi_reset m)) = csctrl (dev m)"
  by (simp add: reset_effect)

text \<open>
  C1. After reset the registers are CR1 = CR2 = DR = CSCTRL = 0 and SR = TXE. The code
  does not do this: after the guest has written CSCTRL = 0x11, CR1 = 0x44 and DR = 0x5A,
  a reset leaves CSCTRL at 0x11 and DR at 0x5A, while the flags CSCTRL is mirrored into
  are cleared and both chip selects are driven to 1.
\<close>

theorem g233_spi_reset_stale_csctrl_dr:
  "csctrl (dev (g233_spi_reset (g233_spi_write complement_peer selected SPI_DR 0x5A 4))) = 0x11
   \<and> dr (dev (g233_spi_reset (g233_spi_write complement_peer selected SPI_DR 0x5A 4))) = 0x5A
   \<and> \<not> cs0_en (dev (g233_spi_reset (g233_spi_write complement_peer selected SPI_DR 0x5A 4)))
   \<and> lines (g233_spi_reset (g233_spi_write complement_peer selected SPI_DR 0x5A 4)) 0 = 1"
  by (simp add: selected_eq eval_defs)

section \<open>Writing the data register\<close>

text \<open>
  C2. A write to DR (offset 0x0C) runs the bus exchange exactly once when
  \<open>spe && mstr && (cs0_active ^ cs1_active)\<close> holds; otherwise it runs none, and SR,
  the bus peer, the output lines and the trace are as before.
\<close>

theorem g233_spi_write_dr_gating:
  "let s = dev m;
       qualifies = (spe s \<and> mstr s \<and> ((cs0_en s \<and> cs0_act s) \<noteq> (cs1_en s \<and> cs1_act s)));
       m' = g233_spi_write xfer m 0x0C v sz
   in exchanges (trace m') = exchanges (trace m) + (if qualifies then 1 else 0)
      \<and> (\<not> qualifies \<longrightarrow>
           sr (dev m') = sr s \<and> trace m' = trace m \<and> ssi m' = ssi m \<and> lines m' = lines m)"
  using write_dr [of xfer m v sz]
  by (simp add: SPI_DR_def do_transfer_effect(3) exchanges_def Let_def)

theorem g233_spi_write_dr_gating_witness:
  "spe (dev selected) \<and> mstr (dev selected)
   \<and> ((cs0_en (dev selected) \<and> cs0_act (dev selected))
        \<noteq> (cs1_en (dev selected) \<and> cs1_act (dev selected)))
   \<and> exchanges (trace selected) = 0
   \<and> exchanges (trace (g233_spi_write complement_peer selected 0x0C 0x5A 4)) = 1
   \<and> \<not> spe (dev power_on)
   \<and> exchanges (trace (g233_spi_write complement_peer power_on 0x0C 0x5A 4)) = 0
   \<and> sr (dev (g233_spi_write complement_peer power_on 0x0C 0x5A 4)) = sr (dev power_on)"
  using g233_spi_write_dr_gating [of selected complement_peer "0x5A" 4]
    g233_spi_write_dr_gating [of power_on complement_peer "0x5A" 4]
  by (simp add: selected_eq power_on_eq exchanges_def Let_def)

text \<open>
  C3. When the condition holds, the write sends the low byte of the value once; then OVR
  is set if RXNE was set before and otherwise keeps its value, \<open>rx_data\<close> is the low
  byte of what the peer returned, RXNE and TXE are set, BSY is clear, every other bit of
  SR is as before, and the last call drives the interrupt line from the final CR2 and SR.
\<close>

theorem g233_spi_write_dr_transfer:
  assumes "spe (dev m)" and "mstr (dev m)"
    and "(cs0_en (dev m) \<and> cs0_act (dev m)) \<noteq> (cs1_en (dev m) \<and> cs1_act (dev m))"
  shows
  "let s = dev m;
       m' = g233_spi_write xfer m 0x0C v sz;
       tx = ucast v AND 0xFF;
       rx = fst (xfer (ssi m) tx);
       level = (if irq_pending (dev m') then 1 else 0)
   in trace m' = trace m @ [Ssi_transfer tx rx, Set_irq 2 level]
      \<and> ssi m' = snd (xfer (ssi m) tx)
      \<and> rx_data (dev m') = ucast rx
      \<and> bit (sr (dev m')) 3 = (bit (sr s) 0 \<or> bit (sr s) 3)
      \<and> bit (sr (dev m')) 0 \<and> bit (sr (dev m')) 1 \<and> \<not> bit (sr (dev m')) 7
      \<and> (\<forall>n. n \<notin> {0, 1, 3, 7} \<longrightarrow> bit (sr (dev m')) n = bit (sr s) n)
      \<and> lines m' = (lines m)(2 := level)
      \<and> dev m' = s\<lparr>dr := tx, sr := sr (dev m'), rx_data := ucast rx\<rparr>"
proof -
  let ?m1 = "m\<lparr>dev := (dev m)\<lparr>dr := ucast v AND 0xFF\<rparr>\<rparr>"
  let ?tx = "ucast (ucast v AND 0xFF :: uint32) :: uint8"
  have w: "g233_spi_write xfer m 0x0C v sz = g233_spi_do_transfer xfer ?m1 ?tx"
    using assms write_dr [of xfer m v sz] by (simp add: SPI_DR_def)
  have tx: "(ucast ?tx :: uint32) = ucast v AND 0xFF"
    by (rule low_byte_roundtrip)
  have bits: "bit (sr (dev (g233_spi_do_transfer xfer ?m1 ?tx))) n \<longleftrightarrow>
      n = 0 \<or> n = 1 \<or> (n = 3 \<and> bit (sr (dev m)) 0) \<or> (n \<noteq> 7 \<and> bit (sr (dev m)) n)" for n
    by (simp add: do_transfer_sr_bits)
  have d: "dev (g233_spi_do_transfer xfer ?m1 ?tx) =
      (dev m)\<lparr>dr := ucast v AND 0xFF, sr := sr (dev (g233_spi_do_transfer xfer ?m1 ?tx)),
              rx_data := ucast (fst (xfer (ssi m) (ucast v AND 0xFF)))\<rparr>"
    by (simp add: do_transfer_effect(1) tx)
  show ?thesis
    unfolding Let_def w
    apply (intro conjI)
            apply (simp add: do_transfer_effect(3) tx)
           apply (simp add: do_transfer_effect(2) tx)
          apply (simp add: do_transfer_effect(1) tx)
         apply (simp add: bits)
        apply (simp add: bits)
       apply (simp add: bits)
      apply (simp add: bits)
     apply (simp add: bits)
    apply (simp add: do_transfer_effect(4))
    apply (rule d)
    done
qed

theorem g233_spi_write_dr_transfer_witness:
  "spe (dev selected) \<and> mstr (dev selected)
   \<and> ((cs0_en (dev selected) \<and> cs0_act (dev selected))
        \<noteq> (cs1_en (dev selected) \<and> cs1_act (dev selected)))
   \<and> trace (g233_spi_write complement_peer selected 0x0C 0x15A 4) =
       trace selected @ [Ssi_transfer 0x5A 0xA5, Set_irq 2 0]
   \<and> rx_data (dev (g233_spi_write complement_peer selected 0x0C 0x15A 4)) = 0xA5
   \<and> sr (dev (g233_spi_write complement_peer selected 0x0C 0x15A 4)) = 3
   \<and> dr (dev (g233_spi_write complement_peer selected 0x0C 0x15A 4)) = 0x5A"
proof -
  have h1: "spe (dev selected)" and h2: "mstr (dev selected)"
    and h3: "(cs0_en (dev selected) \<and> cs0_act (dev selected))
               \<noteq> (cs1_en (dev selected) \<and> cs1_act (dev selected))"
    by (simp_all add: selected_eq)
  have sr: "sr (dev (g233_spi_write complement_peer selected 0x0C 0x15A 4)) = 3"
    by (simp add: selected_eq eval_defs)
  show ?thesis
    using h1 h2 h3 sr
      g233_spi_write_dr_transfer [OF h1 h2 h3, of complement_peer "0x15A" 4]
    by (simp add: Let_def complement_peer_def irq_pending_bits selected_eq)
qed

section \<open>Reading the data register\<close>

text \<open>
  C4. A read of DR (offset 0x0C) returns \<open>rx_data\<close>, the byte last received from the
  bus, not the \<open>dr\<close> field a write stores. It clears RXNE and OVR in SR and changes no
  other bit of SR, no other register and no flag; it ends by driving the interrupt line
  from CR2 and the new SR.
\<close>

theorem g233_spi_read_dr:
  "let s = dev m;
       val = fst (g233_spi_read m 0x0C sz);
       m' = snd (g233_spi_read m 0x0C sz);
       level = (if irq_pending (dev m') then 1 else 0)
   in val = ucast (rx_data s)
      \<and> dev m' = s\<lparr>sr := sr (dev m')\<rparr>
      \<and> (\<forall>n. bit (sr (dev m')) n = (bit (sr s) n \<and> n \<noteq> 0 \<and> n \<noteq> 3))
      \<and> ssi m' = ssi m
      \<and> lines m' = (lines m)(2 := level)
      \<and> trace m' = trace m @ [Set_irq 2 level]"
proof -
  have bits: "bit ((sr (dev m) AND NOT G233_SPI_SR_RXNE) AND NOT G233_SPI_SR_OVR) n
      = (bit (sr (dev m)) n \<and> n \<noteq> 0 \<and> n \<noteq> 3)" for n
    unfolding bit_masks bit_clear_mask by auto
  show ?thesis
    using read_dr [of m sz]
    by (simp add: SPI_DR_def Let_def update_irq_simps bits)
qed

theorem g233_spi_read_dr_witness:
  "dr (dev (g233_spi_write complement_peer selected 0x0C 0x5A 4)) = 0x5A
   \<and> fst (g233_spi_read (g233_spi_write complement_peer selected 0x0C 0x5A 4) 0x0C 4) = 0xA5
   \<and> sr (dev (g233_spi_write complement_peer selected 0x0C 0x5A 4)) = 3
   \<and> sr (dev (snd (g233_spi_read (g233_spi_write complement_peer selected 0x0C 0x5A 4) 0x0C 4))) = 2"
proof -
  have d: "dev (g233_spi_write complement_peer selected 0x0C 0x5A 4) =
     \<lparr>cr1 = 0x44, cr2 = 0, sr = 3, dr = 0x5A, csctrl = 0x11, rx_data = 0xA5,
      spe = True, mstr = True, cs0_en = True, cs0_act = True,
      cs1_en = False, cs1_act = False\<rparr>"
    by (simp add: selected_eq eval_defs)
  have "sr (dev (snd (g233_spi_read (g233_spi_write complement_peer selected 0x0C 0x5A 4) 0x0C 4))) = 2"
    by (simp add: g233_spi_read_def reg_offsets Let_def update_irq_simps d bit_masks)
  then show ?thesis
    using g233_spi_read_dr [of "g233_spi_write complement_peer selected 0x0C 0x5A 4" 4]
    by (simp add: Let_def d)
qed

section \<open>Writing the status register\<close>

text \<open>
  C6. A write of \<open>v\<close> to SR (offset 0x08) clears UDR (bit 2) and OVR (bit 3) where the
  same bit of \<open>v\<close> is set, and changes no other bit of SR, no other register and no
  flag; it ends by driving the interrupt line from CR2 and the new SR.
\<close>

theorem g233_spi_write_sr:
  "let s = dev m;
       m' = g233_spi_write xfer m 0x08 v sz;
       level = (if irq_pending (dev m') then 1 else 0)
   in dev m' = s\<lparr>sr := sr (dev m')\<rparr>
      \<and> (\<forall>n. bit (sr (dev m')) n = (bit (sr s) n \<and> \<not> ((n = 2 \<or> n = 3) \<and> bit v n)))
      \<and> ssi m' = ssi m
      \<and> lines m' = (lines m)(2 := level)
      \<and> trace m' = trace m @ [Set_irq 2 level]"
proof -
  define new where
    "new = sr (dev m) AND NOT (ucast v AND (G233_SPI_SR_OVR OR G233_SPI_SR_UDR))"
  have w: "g233_spi_write xfer m 0x08 v sz =
      g233_spi_update_irq (m\<lparr>dev := (dev m)\<lparr>sr := new\<rparr>\<rparr>)"
    using write_sr [of xfer m v sz] unfolding new_def SPI_SR_def .
  have bits: "bit new n = (bit (sr (dev m)) n \<and> \<not> ((n = 2 \<or> n = 3) \<and> bit v n))" for n
    unfolding new_def bit_masks bit_clear_two_masks
    by (auto simp add: bit_ucast_iff dest: bit_uint32_bound)
  show ?thesis
    by (simp add: w Let_def update_irq_simps bits)
qed

theorem g233_spi_write_sr_witness:
  "sr (dev overrun) = 0x0B
   \<and> sr (dev (g233_spi_write complement_peer overrun 0x08 0xFF 4)) = 0x03
   \<and> sr (dev (g233_spi_write complement_peer overrun 0x08 0xF7 4)) = 0x0B
   \<and> trace (g233_spi_write complement_peer overrun 0x08 0xFF 4) = trace overrun @ [Set_irq 2 0]"
proof -
  have "sr (dev (g233_spi_write complement_peer overrun 0x08 0xFF 4)) = 0x03"
    and "sr (dev (g233_spi_write complement_peer overrun 0x08 0xF7 4)) = 0x0B"
    by (simp_all add: overrun_eq eval_defs)
  then show ?thesis
    using g233_spi_write_sr [of overrun complement_peer "0xFF" 4]
    by (simp add: Let_def overrun_eq irq_pending_bits)
qed

section \<open>The interrupt line\<close>

text \<open>
  C7. The level \<open>g233_spi_update_irq\<close> drives on the interrupt line is 1 exactly when
  CR2 bit 7 and SR.TXE, or CR2 bit 6 and SR.RXNE, or CR2 bit 5 and one of SR.UDR and
  SR.OVR are set. The call changes nothing of the controller, so a second call drives
  the same level again.
\<close>

theorem g233_spi_update_irq_level:
  "lines (g233_spi_update_irq m) 2 =
     (if bit (cr2 (dev m)) 7 \<and> bit (sr (dev m)) 1
         \<or> bit (cr2 (dev m)) 6 \<and> bit (sr (dev m)) 0
         \<or> bit (cr2 (dev m)) 5 \<and> (bit (sr (dev m)) 2 \<or> bit (sr (dev m)) 3)
      then 1 else 0)
   \<and> trace (g233_spi_update_irq m) = trace m @ [Set_irq 2 (lines (g233_spi_update_irq m) 2)]
   \<and> dev (g233_spi_update_irq m) = dev m
   \<and> lines (g233_spi_update_irq (g233_spi_update_irq m)) = lines (g233_spi_update_irq m)
   \<and> trace (g233_spi_update_irq (g233_spi_update_irq m)) =
       trace m @ [Set_irq 2 (lines (g233_spi_update_irq m) 2),
                  Set_irq 2 (lines (g233_spi_update_irq m) 2)]"
  by (simp add: update_irq_simps irq_pending_bits)

theorem g233_spi_update_irq_level_witness:
  "lines (g233_spi_update_irq (overrun\<lparr>dev := (dev overrun)\<lparr>cr2 := 0x20\<rparr>\<rparr>)) 2 = 1
   \<and> lines (g233_spi_update_irq (overrun\<lparr>dev := (dev overrun)\<lparr>cr2 := 0x10\<rparr>\<rparr>)) 2 = 0"
proof -
  have "irq_pending ((dev overrun)\<lparr>cr2 := 0x20\<rparr>)"
    and "\<not> irq_pending ((dev overrun)\<lparr>cr2 := 0x10\<rparr>)"
    by (simp_all add: overrun_eq irq_pending_def bit_masks)
  then show ?thesis
    using g233_spi_update_irq_level [of "overrun\<lparr>dev := (dev overrun)\<lparr>cr2 := 0x20\<rparr>\<rparr>"]
      g233_spi_update_irq_level [of "overrun\<lparr>dev := (dev overrun)\<lparr>cr2 := 0x10\<rparr>\<rparr>"]
    by (simp add: update_irq_simps)
qed

section \<open>The chip-select lines\<close>

text \<open>
  C8. \<open>g233_spi_update_cs\<close> drives chip-select line \<open>i\<close> to 0 when the line's enable and
  active flags are both set and to 1 otherwise, line 0 first. A write to CSCTRL
  (offset 0x10) copies bits 0, 1, 4 and 5 into the flags and then drives both lines.
\<close>

theorem g233_spi_update_cs_levels:
  "lines (g233_spi_update_cs m) 0 = (if cs0_en (dev m) \<and> cs0_act (dev m) then 0 else 1)
   \<and> lines (g233_spi_update_cs m) 1 = (if cs1_en (dev m) \<and> cs1_act (dev m) then 0 else 1)
   \<and> trace (g233_spi_update_cs m) =
       trace m @ [Set_irq 0 (lines (g233_spi_update_cs m) 0),
                  Set_irq 1 (lines (g233_spi_update_cs m) 1)]
   \<and> lines (g233_spi_write xfer m 0x10 v sz) 0 = (if bit v 0 \<and> bit v 4 then 0 else 1)
   \<and> lines (g233_spi_write xfer m 0x10 v sz) 1 = (if bit v 1 \<and> bit v 5 then 0 else 1)
   \<and> trace (g233_spi_write xfer m 0x10 v sz) =
       trace m @ [Set_irq 0 (lines (g233_spi_write xfer m 0x10 v sz) 0),
                  Set_irq 1 (lines (g233_spi_write xfer m 0x10 v sz) 1)]"
  using write_csctrl [of xfer m v sz]
  by (simp add: SPI_CSCTRL_def update_cs_simps bit_ucast_iff)

theorem g233_spi_update_cs_levels_witness:
  "lines (g233_spi_update_cs selected) 0 = 0 \<and> lines (g233_spi_update_cs selected) 1 = 1
   \<and> lines (g233_spi_write complement_peer power_on 0x10 0x11 4) 0 = 0
   \<and> lines (g233_spi_write complement_peer power_on 0x10 0x11 4) 1 = 1
   \<and> lines (g233_spi_write complement_peer power_on 0x10 0x33 4) 1 = 0
   \<and> lines (g233_spi_write complement_peer power_on 0x10 0x01 4) 0 = 1"
  using g233_spi_update_cs_levels [of selected complement_peer 0 0]
    g233_spi_update_cs_levels [of power_on complement_peer "0x11" 4]
    g233_spi_update_cs_levels [of power_on complement_peer "0x33" 4]
    g233_spi_update_cs_levels [of power_on complement_peer "0x01" 4]
  by (simp add: selected_eq)

section \<open>Unknown offsets\<close>

text \<open>
  C10. At an offset other than 0x00, 0x04, 0x08, 0x0C and 0x10 a read returns 0 and a
  write stores nothing: the controller, the bus peer and the output lines are as before,
  and the only call made is the guest-error diagnostic. Both handlers are total, so
  neither access can stop the run.
\<close>

theorem g233_spi_bad_offset:
  assumes "addr \<notin> {0x00, 0x04, 0x08, 0x0C, 0x10}"
  shows "g233_spi_read m addr sz = (0, m\<lparr>trace := trace m @ [Bad_read addr]\<rparr>)
    \<and> g233_spi_write xfer m addr v sz = m\<lparr>trace := trace m @ [Bad_write addr (ucast v)]\<rparr>"
  using assms
  by (simp add: g233_spi_read_def g233_spi_write_def reg_offsets Let_def qemu_log_mask_def)

theorem g233_spi_bad_offset_witness:
  "(0x14 :: hwaddr) \<notin> {0x00, 0x04, 0x08, 0x0C, 0x10}
   \<and> g233_spi_read selected 0x14 4 = (0, selected\<lparr>trace := trace selected @ [Bad_read 0x14]\<rparr>)
   \<and> g233_spi_write complement_peer selected 0x14 0x5A 4 =
       selected\<lparr>trace := trace selected @ [Bad_write 0x14 0x5A]\<rparr>"
proof -
  have h: "(0x14 :: hwaddr) \<notin> {0x00, 0x04, 0x08, 0x0C, 0x10}" by simp
  show ?thesis
    using h g233_spi_bad_offset [OF h, of selected 4 complement_peer "0x5A"] by simp
qed

section \<open>The underrun bit\<close>

lemma sr_after_write:
  "bit (sr (dev (g233_spi_write xfer m addr v sz))) 2 \<Longrightarrow> bit (sr (dev m)) 2"
proof (cases addr rule: write_cases)
  case 3
  define new where
    "new = sr (dev m) AND NOT (ucast v AND (G233_SPI_SR_OVR OR G233_SPI_SR_UDR))"
  have w: "g233_spi_write xfer m SPI_SR v sz =
      g233_spi_update_irq (m\<lparr>dev := (dev m)\<lparr>sr := new\<rparr>\<rparr>)"
    using write_sr [of xfer m v sz] unfolding new_def .
  have "bit new 2 \<Longrightarrow> bit (sr (dev m)) 2"
    unfolding new_def bit_masks bit_clear_two_masks by simp
  then show "bit (sr (dev (g233_spi_write xfer m addr v sz))) 2 \<Longrightarrow> bit (sr (dev m)) 2"
    by (simp add: 3 w update_irq_simps)
next
  case 4
  assume "bit (sr (dev (g233_spi_write xfer m addr v sz))) 2"
  then show "bit (sr (dev m)) 2"
    by (simp add: 4 write_dr do_transfer_sr_bits split: if_splits)
qed (simp_all add: write_cr1 write_cr2 write_csctrl write_bad update_irq_simps update_cs_simps)

lemma sr_after_read:
  "bit (sr (dev (snd (g233_spi_read m addr sz)))) 2 \<Longrightarrow> bit (sr (dev m)) 2"
proof (cases "addr = SPI_DR")
  case True
  have "bit ((sr (dev m) AND NOT G233_SPI_SR_RXNE) AND NOT G233_SPI_SR_OVR) 2
      \<Longrightarrow> bit (sr (dev m)) 2"
    unfolding bit_masks bit_clear_mask by simp
  then show "bit (sr (dev (snd (g233_spi_read m addr sz)))) 2 \<Longrightarrow> bit (sr (dev m)) 2"
    by (simp add: True read_dr update_irq_simps)
next
  case False
  assume "bit (sr (dev (snd (g233_spi_read m addr sz)))) 2"
  with read_other [OF False, of m sz] show "bit (sr (dev m)) 2"
    by auto
qed

lemma sr_after_reset: "\<not> bit (sr (dev (g233_spi_reset m))) 2"
  by (simp add: reset_effect)

lemma udr_step: "bit (sr (dev (step xfer m a))) 2 \<Longrightarrow> bit (sr (dev m)) 2"
  by (cases a) (auto dest: sr_after_read sr_after_write simp add: sr_after_reset)

lemma udr_run: "\<not> bit (sr (dev m)) 2 \<Longrightarrow> \<not> bit (sr (dev (run xfer m ops))) 2"
  unfolding run_def
  by (induction ops arbitrary: m) (auto dest: udr_step)

text \<open>
  C9. No entry point sets UDR (bit 2 of SR): if the bit is set after an operation it was
  set before. Reset clears it, so it is clear after every sequence of reads, writes and
  resets that follows a reset, whatever the bus peer answers.
\<close>

theorem udr_never_set:
  "(bit (sr (dev (step xfer m a))) 2 \<longrightarrow> bit (sr (dev m)) 2)
   \<and> \<not> bit (sr (dev (run xfer (g233_spi_reset m0) ops))) 2"
  using udr_step [of xfer m a] udr_run [OF sr_after_reset, of xfer m0 ops]
  by simp

theorem udr_never_set_witness:
  "bit (sr (dev (step complement_peer (overrun\<lparr>dev := (dev overrun)\<lparr>sr := 0x0F\<rparr>\<rparr>)
                  (Write 0x0C 0x5A 4)))) 2
   \<and> bit (sr (dev (overrun\<lparr>dev := (dev overrun)\<lparr>sr := 0x0F\<rparr>\<rparr>))) 2
   \<and> \<not> bit (sr (dev (run complement_peer (g233_spi_reset overrun)
                [Write 0x10 0x11 4, Write 0x00 0x44 4, Write 0x0C 0x5A 4, Write 0x0C 0x5A 4,
                 Write 0x08 0x04 4, Read 0x0C 4, Reset, Read 0x08 4]))) 2"
proof -
  have "sr (dev (step complement_peer (overrun\<lparr>dev := (dev overrun)\<lparr>sr := 0x0F\<rparr>\<rparr>)
                  (Write 0x0C 0x5A 4))) = 0x0F"
    by (simp add: overrun_eq eval_defs)
  then have "bit (sr (dev (step complement_peer (overrun\<lparr>dev := (dev overrun)\<lparr>sr := 0x0F\<rparr>\<rparr>)
                  (Write 0x0C 0x5A 4)))) 2"
    by simp
  then show ?thesis
    using udr_never_set [of complement_peer "overrun\<lparr>dev := (dev overrun)\<lparr>sr := 0x0F\<rparr>\<rparr>"
        "Write 0x0C 0x5A 4" overrun
        "[Write 0x10 0x11 4, Write 0x00 0x44 4, Write 0x0C 0x5A 4, Write 0x0C 0x5A 4,
          Write 0x08 0x04 4, Read 0x0C 4, Reset, Read 0x08 4]"]
    by simp
qed

section \<open>The mirror flags\<close>

lemma mirror_power_on: "mirror (dev power_on)"
  by (simp add: power_on_eq mirror_def)

lemma mirror_write: "mirror (dev m) \<Longrightarrow> mirror (dev (g233_spi_write xfer m addr v sz))"
proof (cases addr rule: write_cases)
  case 4
  assume "mirror (dev m)"
  then show "mirror (dev (g233_spi_write xfer m addr v sz))"
    by (simp add: 4 write_dr do_transfer_effect(1) mirror_def)
qed (simp_all add: write_cr1 write_cr2 write_sr write_csctrl write_bad update_irq_simps
      update_cs_simps mirror_def)

lemma mirror_read: "mirror (dev m) \<Longrightarrow> mirror (dev (snd (g233_spi_read m addr sz)))"
proof (cases "addr = SPI_DR")
  case True
  assume "mirror (dev m)"
  then show ?thesis by (simp add: True read_dr update_irq_simps mirror_def)
next
  case False
  assume "mirror (dev m)"
  with read_other [OF False, of m sz] show ?thesis by auto
qed

lemma mirror_reset:
  "mirror (dev (g233_spi_reset m)) \<longleftrightarrow>
     \<not> bit (csctrl (dev m)) 0 \<and> \<not> bit (csctrl (dev m)) 1
     \<and> \<not> bit (csctrl (dev m)) 4 \<and> \<not> bit (csctrl (dev m)) 5"
  by (simp add: reset_effect mirror_def)

text \<open>
  C5. The flags mirror bits 6 and 2 of CR1 and bits 0, 1, 4 and 5 of CSCTRL in the first
  state and after every read, write and reset. Reads and writes keep the relation
  (\<open>mirror_read\<close>, \<open>mirror_write\<close>); reset does not: it clears the four chip-select flags
  and leaves CSCTRL as it is. After CSCTRL = 0x11 and CR1 = 0x44 have been written the
  relation holds, and after a reset of that state it fails, with \<open>cs0_en\<close> clear and
  CSCTRL still 0x11.
\<close>

theorem g233_spi_reset_breaks_mirror:
  "mirror (dev selected) \<and> \<not> mirror (dev (step complement_peer selected Reset))
   \<and> csctrl (dev (step complement_peer selected Reset)) = 0x11
   \<and> \<not> cs0_en (dev (step complement_peer selected Reset))"
  by (simp add: mirror_def selected_eq reset_effect)

end
